theory Spec2Isabelle
  imports Complex_Main "HOL-Library.Multiset"
begin

section \<open>Arrays, errors and the random source\<close>

text \<open>
  The notebooks compute on numpy arrays of double precision numbers. A one-dimensional
  array is modelled as a list of reals and a two-dimensional array as the list of its
  rows; rounding is not modelled. An exception is a value of \<open>error\<close>: numpy raises
  \<open>ValueError\<close> (with a message) for a parameter outside a sampler's domain and for
  operands whose shapes do not fit, and \<open>IndexError\<close> for an index past the end;
  \<open>RuntimeError\<close> stands for a Stan fit that fails. \<open>EmptyBatch\<close> is the one error of
  the specification that no library call of the notebooks raises.
\<close>

datatype error = ValueError string | IndexError | RuntimeError | EmptyBatch

subsection \<open>The mean of an array\<close>

text \<open>
  \<open>np.mean\<close> of an empty array is \<open>nan\<close> (with a warning, no exception); \<open>None\<close>
  stands for it. On a boolean array the entries count as 1.0 and 0.0.
\<close>

definition np_mean :: "real list \<Rightarrow> real option" where
  "np_mean xs = (if xs = [] then None else Some (sum_list xs / real (length xs)))"

definition as_float :: "bool list \<Rightarrow> real list" where
  "as_float bs = map of_bool bs"

text \<open>
  The two probability estimates of the undervote notebook, with the array and the
  constant (\<open>0\<close>, \<open>0.001\<close> there) as arguments:
  \<^verbatim>\<open>np.mean(traces["delta_vns"] <= 0)\<close> and
  \<^verbatim>\<open>np.mean(np.abs(traces["delta_vns"]) < 0.001)\<close>.
\<close>

definition mean_le :: "real list \<Rightarrow> real \<Rightarrow> real option" where
  "mean_le trace c = np_mean (as_float (map (\<lambda>v. v \<le> c) trace))"

definition mean_abs_lt :: "real list \<Rightarrow> real \<Rightarrow> real option" where
  "mean_abs_lt trace c = np_mean (as_float (map (\<lambda>v. v < c) (map abs trace)))"

subsection \<open>The discrepancy evaluator\<close>

text \<open>
  The particulate notebook computes a statistic of the observed data and of every
  replicated dataset, in batch order:
  \<^verbatim>\<open>observed_skew = skew(data.log_pm25.values)\<close>,
  \<^verbatim>\<open>ppc_skews = np.array([skew(log_pm_rep[i,:]) for i in range(log_pm_rep.shape[0])])\<close>.
\<close>

record check_result =
  observed_stat :: real
  replicated_stats :: "real list"
  rank :: real

text \<open>
  Modelled from the spec: \<open>evaluate\<close> is the specification's function (section 4.3)
  and is in none of the notebooks. Zero draws or zero observations are its error
  \<open>EmptyBatch\<close>, raised before any statistic is computed (section 7). Otherwise it is
  composed of the notebooks' own expressions: the statistic of the observed data, the
  statistic of every replicated dataset, and \<open>mean_le\<close> of these against the observed
  statistic. (After the check \<open>np.mean\<close> has a non-empty array and never gives \<open>nan\<close>.)
\<close>

definition evaluate ::
  "real list \<Rightarrow> real list list \<Rightarrow> (real list \<Rightarrow> real) \<Rightarrow> error + check_result" where
  "evaluate observed replicated_batch statistic =
     (if observed = [] \<or> replicated_batch = [] then Inl EmptyBatch
      else
        (let obs = statistic observed;
             reps = map statistic replicated_batch
         in case mean_le reps obs of
              None \<Rightarrow> Inl EmptyBatch
            | Some r \<Rightarrow> Inr \<lparr>observed_stat = obs, replicated_stats = reps, rank = r\<rparr>))"

text \<open>
  The mean as a statistic. On an empty dataset numpy gives \<open>nan\<close>; HOL's \<open>x / 0 = 0\<close>
  stands there, and nothing below applies it to an empty dataset.
\<close>

definition mean_stat :: "real list \<Rightarrow> real" where
  "mean_stat xs = sum_list xs / real (length xs)"

subsection \<open>The random source\<close>

text \<open>
  The notebooks draw from numpy's process-wide generator (\<open>np.random\<close>), a hidden state
  that every sampling call reads and advances; it is seeded once, by
  \<^verbatim>\<open>np.random.seed(1)\<close>, before the train and test split. The state is modelled as the
  sequence of variates the generator will hand out: \<open>g k d\<close> is the value given to the
  \<open>k\<close>-th coming request when that request asks for distribution \<open>d\<close>. A call for
  \<open>n\<close> values takes the first \<open>n\<close> entries and leaves the rest as the new state. Stan's
  generator, behind \<open>poisson_rng\<close>, is modelled the same way.
\<close>

datatype dist = Standard_Normal | Standard_T real | Poisson real

type_synonym rng = "nat \<Rightarrow> dist \<Rightarrow> real"

definition variates :: "rng \<Rightarrow> dist \<Rightarrow> nat \<Rightarrow> real list \<times> rng" where
  "variates g d n = (map (\<lambda>k. g k d) [0..<n], (\<lambda>k. g (k + n)))"

text \<open>
  Modelled from the spec: \<open>np.random.normal\<close> and \<open>np.random.standard_t\<close> are numpy's,
  not the repository's. \<open>normal(loc, scale, size=n)\<close> raises \<open>ValueError\<close> for a
  negative scale and returns \<open>loc + scale * z\<close> for standard normal variates \<open>z\<close>;
  \<open>standard_t(df, size=n)\<close> raises \<open>ValueError\<close> unless \<open>df > 0\<close>. The specification
  calls both failures InvalidParameter.
\<close>

definition np_random_normal :: "rng \<Rightarrow> real \<Rightarrow> real \<Rightarrow> nat \<Rightarrow> error + (real list \<times> rng)" where
  "np_random_normal g loc scale n =
     (if scale < 0 then Inl (ValueError ''scale < 0'')
      else case variates g Standard_Normal n of
             (zs, g') \<Rightarrow> Inr (map (\<lambda>z. loc + scale * z) zs, g'))"

definition np_random_standard_t :: "rng \<Rightarrow> real \<Rightarrow> nat \<Rightarrow> error + (real list \<times> rng)" where
  "np_random_standard_t g df n =
     (if df \<le> 0 then Inl (ValueError ''df <= 0'')
      else Inr (variates g (Standard_T df) n))"

subsection \<open>Array arithmetic\<close>

text \<open>
  \<^verbatim>\<open>beta.dot(X_test.T)\<close>: the inner product of \<open>beta\<close> with every row of \<open>X_test\<close>; numpy
  raises \<open>ValueError\<close> when the row length is not the length of \<open>beta\<close>. (An array
  with no rows keeps no column count in this model, and the product is then empty.)
\<close>

definition dot :: "real list \<Rightarrow> real list \<Rightarrow> real" where
  "dot b x = sum_list (map2 (*) b x)"

definition dot_rows :: "real list \<Rightarrow> real list list \<Rightarrow> error + real list" where
  "dot_rows b X =
     (if list_all (\<lambda>row. length row = length b) X then Inr (map (dot b) X)
      else Inl (ValueError ''shapes not aligned''))"

text \<open>
  An operation on two one-dimensional arrays works entry by entry; an array of length
  one is broadcast along the other; any other pair of different lengths raises
  \<open>ValueError\<close>.
\<close>

definition broadcast :: "(real \<Rightarrow> real \<Rightarrow> real) \<Rightarrow> real list \<Rightarrow> real list \<Rightarrow> error + real list" where
  "broadcast f a b =
     (if length a = length b then Inr (map2 f a b)
      else if length a = 1 then Inr (map (f (hd a)) b)
      else if length b = 1 then Inr (map (\<lambda>x. f x (hd b)) a)
      else Inl (ValueError ''operands could not be broadcast together''))"

subsection \<open>Parameter draws\<close>

text \<open>
  \<open>fit.extract()\<close> gives a dictionary of arrays with one entry per posterior draw:
  \<open>traces["beta"]\<close> (one row per draw), \<open>traces["sigma"]\<close>, \<open>traces["intercept"]\<close>.
  The cells pick a draw by its index \<open>i\<close>, a member of
  \<^verbatim>\<open>np.arange(traces["beta"].shape[0])\<close> and so never negative:
  \<^verbatim>\<open>beta = traces["beta"][i,:]\<close>, \<^verbatim>\<open>sigma = traces["sigma"][i]\<close>,
  \<^verbatim>\<open>intercept = traces["intercept"][i]\<close>.
\<close>

record traces =
  tr_beta :: "real list list"
  tr_sigma :: "real list"
  tr_intercept :: "real list"

record draw =
  beta :: "real list"
  intercept :: real
  sigma :: real

record t_draw = draw +
  nu :: real

definition item :: "'a list \<Rightarrow> nat \<Rightarrow> error + 'a" where
  "item xs i = (if i < length xs then Inr (xs ! i) else Inl IndexError)"

definition batch_size :: "traces \<Rightarrow> nat" where
  "batch_size tr = length (tr_beta tr)"

text \<open>
  Modelled from the spec: \<open>draw_at\<close> and \<open>all_draws\<close> are the specification's
  accessors (section 4.1); no notebook defines them. \<open>draw_at\<close> is the three indexing
  lines above, in their order, with numpy's \<open>IndexError\<close> as the out-of-range error;
  \<open>all_draws\<close> lists the draws in storage order. In a valid batch all three arrays
  have one entry per draw.
\<close>

definition draw_at :: "traces \<Rightarrow> nat \<Rightarrow> error + draw" where
  "draw_at tr i =
     (case item (tr_beta tr) i of
        Inl e \<Rightarrow> Inl e
      | Inr b \<Rightarrow>
          (case item (tr_sigma tr) i of
             Inl e \<Rightarrow> Inl e
           | Inr s \<Rightarrow>
               (case item (tr_intercept tr) i of
                  Inl e \<Rightarrow> Inl e
                | Inr c \<Rightarrow> Inr \<lparr>beta = b, intercept = c, sigma = s\<rparr>)))"

definition all_draws :: "traces \<Rightarrow> draw list" where
  "all_draws tr =
     map (\<lambda>(b, s, c). \<lparr>beta = b, intercept = c, sigma = s\<rparr>)
         (zip (tr_beta tr) (zip (tr_sigma tr) (tr_intercept tr)))"

definition valid_batch :: "traces \<Rightarrow> bool" where
  "valid_batch tr \<longleftrightarrow>
     length (tr_sigma tr) = length (tr_beta tr) \<and> length (tr_intercept tr) = length (tr_beta tr)"

subsection \<open>Replicated datasets\<close>

text \<open>
  One pass of the posterior predictive check of the normal model, after the draw is
  taken:
  \<^verbatim>\<open>epsilon = np.random.normal(0, sigma, size=len(Y_test))\<close>, then the plotted
  \<^verbatim>\<open>beta.dot(X_test.T)+intercept+epsilon\<close>. The result is the replicated dataset and
  the generator state left behind. (When a later step raises, the variates already
  drawn are gone as well; the model returns the error alone.)
\<close>

definition replicate_normal ::
  "rng \<Rightarrow> draw \<Rightarrow> real list list \<Rightarrow> real list \<Rightarrow> error + (real list \<times> rng)" where
  "replicate_normal g d X_test Y_test =
     (case np_random_normal g 0 (sigma d) (length Y_test) of
        Inl e \<Rightarrow> Inl e
      | Inr (epsilon, g') \<Rightarrow>
          (case dot_rows (beta d) X_test of
             Inl e \<Rightarrow> Inl e
           | Inr lin \<Rightarrow>
               (case broadcast (+) (map (\<lambda>v. v + intercept d) lin) epsilon of
                  Inl e \<Rightarrow> Inl e
                | Inr y \<Rightarrow> Inr (y, g'))))"

text \<open>
  The same pass for the Student-t model:
  \<^verbatim>\<open>epsilon = sigma*np.random.standard_t(nu, size=len(Y_test))\<close>, then
  \<^verbatim>\<open>beta.dot(X_test.T)+intercept+epsilon\<close>.
\<close>

definition replicate_student_t ::
  "rng \<Rightarrow> t_draw \<Rightarrow> real list list \<Rightarrow> real list \<Rightarrow> error + (real list \<times> rng)" where
  "replicate_student_t g d X_test Y_test =
     (case np_random_standard_t g (nu d) (length Y_test) of
        Inl e \<Rightarrow> Inl e
      | Inr (ts, g') \<Rightarrow>
          (let epsilon = map (\<lambda>t. sigma d * t) ts
           in case dot_rows (beta d) X_test of
                Inl e \<Rightarrow> Inl e
              | Inr lin \<Rightarrow>
                  (case broadcast (+) (map (\<lambda>v. v + intercept d) lin) epsilon of
                     Inl e \<Rightarrow> Inl e
                   | Inr y \<Rightarrow> Inr (y, g'))))"

text \<open>
  The generated quantities of the elevator model, run once per draw:
  \<^verbatim>\<open>vector[N] y_sim; for(i in 1:N) { y_sim[i] = poisson_rng(lam); }\<close>.
\<close>

definition y_sim :: "rng \<Rightarrow> real \<Rightarrow> nat \<Rightarrow> real list \<times> rng" where
  "y_sim g lam N = variates g (Poisson lam) N"

text \<open>
  The residual checks. For the normal model:
  \<^verbatim>\<open>resid_norm = Y_test - beta.dot(X_test.T) - intercept\<close>,
  \<^verbatim>\<open>epsilon = np.random.normal(0, sigma, size=len(Y_test))\<close>,
  \<^verbatim>\<open>resid_pp_norm = np.random.normal(0, sigma, size=100*len(Y_test))\<close>;
  for the Student-t model:
  \<^verbatim>\<open>resid_t = Y_test - beta.dot(X_test.T) - intercept\<close>,
  \<^verbatim>\<open>resid_pp_t = sigma*np.random.standard_t(nu, size=100*len(Y_test))\<close>.
\<close>

record residuals =
  resid :: "real list"
  resid_pp :: "real list"

definition residuals_normal ::
  "rng \<Rightarrow> draw \<Rightarrow> real list list \<Rightarrow> real list \<Rightarrow> error + (residuals \<times> rng)" where
  "residuals_normal g d X_test Y_test =
     (case dot_rows (beta d) X_test of
        Inl e \<Rightarrow> Inl e
      | Inr lin \<Rightarrow>
          (case broadcast (-) Y_test lin of
             Inl e \<Rightarrow> Inl e
           | Inr r \<Rightarrow>
               (let resid_norm = map (\<lambda>v. v - intercept d) r
                in case np_random_normal g 0 (sigma d) (length Y_test) of
                     Inl e \<Rightarrow> Inl e
                   | Inr (epsilon, g1) \<Rightarrow>
                       (case np_random_normal g1 0 (sigma d) (100 * length Y_test) of
                          Inl e \<Rightarrow> Inl e
                        | Inr (resid_pp_norm, g2) \<Rightarrow>
                            Inr (\<lparr>resid = resid_norm, resid_pp = resid_pp_norm\<rparr>, g2)))))"

definition residuals_t ::
  "rng \<Rightarrow> t_draw \<Rightarrow> real list list \<Rightarrow> real list \<Rightarrow> error + (residuals \<times> rng)" where
  "residuals_t g d X_test Y_test =
     (case dot_rows (beta d) X_test of
        Inl e \<Rightarrow> Inl e
      | Inr lin \<Rightarrow>
          (case broadcast (-) Y_test lin of
             Inl e \<Rightarrow> Inl e
           | Inr r \<Rightarrow>
               (let resid_t = map (\<lambda>v. v - intercept d) r
                in case np_random_standard_t g (nu d) (100 * length Y_test) of
                     Inl e \<Rightarrow> Inl e
                   | Inr (ts, g') \<Rightarrow>
                       Inr (\<lparr>resid = resid_t, resid_pp = map (\<lambda>t. sigma d * t) ts\<rparr>, g'))))"

text \<open>A generator for examples: its \<open>k\<close>-th variate is \<open>n + k\<close>, whatever is asked.\<close>

definition counter_gen :: "nat \<Rightarrow> rng" where
  "counter_gen n = (\<lambda>k d. real (n + k))"

subsection \<open>The recommender\<close>

text \<open>
  The recommender notebook keeps the labels of all documents in a global array,
  \<^verbatim>\<open>labels = np.nan*np.ones(components.shape[0])\<close>: \<open>nan\<close> (here \<open>None\<close>) for a document
  not yet read, 1 for a useful and 0 for a useless one.

  \<open>choose_next_index\<close> depends on two things outside the repository: the position
  \<open>np.random.choice\<close> draws among the unlabeled indices (any number, taken modulo
  their count), and the Stan fit, which either fails or gives the reward estimate of
  every document (\<^verbatim>\<open>components.dot(beta_sample)\<close>). One value of \<open>external\<close> holds
  both for one call.
\<close>

type_synonym label_array = "real option list"

record external =
  choice :: nat
  fit :: "error + (nat \<Rightarrow> real)"

definition count_eq :: "label_array \<Rightarrow> real \<Rightarrow> nat" where
  "count_eq labels v = length (filter (\<lambda>l. l = Some v) labels)"

text \<open>\<open>argmax\<close> is the first position of the largest entry, and fails on an empty array.\<close>

fun argmax_from :: "real list \<Rightarrow> nat \<Rightarrow> real \<Rightarrow> nat \<Rightarrow> nat" where
  "argmax_from [] i best besti = besti"
| "argmax_from (x # xs) i best besti =
     (if best < x then argmax_from xs (Suc i) x i else argmax_from xs (Suc i) best besti)"

definition argmax :: "real list \<Rightarrow> error + nat" where
  "argmax xs =
     (case xs of
        [] \<Rightarrow> Inl (ValueError ''attempt to get argmax of an empty sequence'')
      | x # rest \<Rightarrow> Inr (argmax_from rest 1 x 0))"

definition choose_next_index :: "label_array \<Rightarrow> external \<Rightarrow> error + nat" where
  "choose_next_index labels ext =
     (let unlabeled_indices = filter (\<lambda>i. labels ! i = None) [0..<length labels];
          labeled_indices = filter (\<lambda>i. labels ! i \<noteq> None) [0..<length labels]
      in if min (count_eq labels 0) (count_eq labels 1) = 0 then
           (if unlabeled_indices = [] then Inl (ValueError ''a must be non-empty'')
            else Inr (unlabeled_indices ! (choice ext mod length unlabeled_indices)))
         else
           (case fit ext of
              Inl e \<Rightarrow> Inl e
            | Inr reward \<Rightarrow>
                argmax (map (\<lambda>i. if i \<in> set labeled_indices then - 1000 else reward i)
                            [0..<length labels])))"

text \<open>
  The state of a \<open>Recommenderizer\<close>, together with the global \<open>labels\<close> it writes. The
  buttons and the two markdown panes only display, and are left out.
\<close>

record recommenderizer =
  labels :: label_array
  next_index :: nat
  index_history :: "nat list"
  label_history :: "nat list"

text \<open>
  \<open>_sample\<close> stores the chosen index. When \<open>choose_next_index\<close> raises, the exception
  leaves the method before \<open>next_index\<close> is assigned; what the caller changed before
  stays changed, so the result is the state together with the exception, if any.
\<close>

definition sample :: "recommenderizer \<Rightarrow> external \<Rightarrow> recommenderizer \<times> error option" where
  "sample st ext =
     (case choose_next_index (labels st) ext of
        Inl e \<Rightarrow> (st, Some e)
      | Inr i \<Rightarrow> (st\<lparr>next_index := i\<rparr>, None))"

text \<open>\<open>__init__\<close>: empty histories, then \<open>_sample\<close>; an exception there leaves no object.\<close>

definition init :: "label_array \<Rightarrow> external \<Rightarrow> error + recommenderizer" where
  "init labels0 ext =
     (case choose_next_index labels0 ext of
        Inl e \<Rightarrow> Inl e
      | Inr i \<Rightarrow> Inr \<lparr>labels = labels0, next_index = i, index_history = [], label_history = []\<rparr>)"

text \<open>
  \<open>_record_yes\<close>: \<^verbatim>\<open>labels[self.next_index] = 1\<close>, the two appends, then \<open>_sample\<close>.
  \<open>_record_no\<close> is the same with 0. The assignment raises \<open>IndexError\<close> for an index
  past the end, before anything is changed.
\<close>

definition record_yes :: "recommenderizer \<Rightarrow> external \<Rightarrow> recommenderizer \<times> error option" where
  "record_yes st ext =
     (if next_index st < length (labels st) then
        sample (st\<lparr>labels := (labels st)[next_index st := Some 1],
                   index_history := index_history st @ [next_index st],
                   label_history := label_history st @ [1]\<rparr>) ext
      else (st, Some IndexError))"

definition record_no :: "recommenderizer \<Rightarrow> external \<Rightarrow> recommenderizer \<times> error option" where
  "record_no st ext =
     (if next_index st < length (labels st) then
        sample (st\<lparr>labels := (labels st)[next_index st := Some 0],
                   index_history := index_history st @ [next_index st],
                   label_history := label_history st @ [0]\<rparr>) ext
      else (st, Some IndexError))"

text \<open>
  A press of a button runs its callback; the state it leaves is the state of the next
  press, whether or not the callback ended in an exception.
\<close>

datatype button = Yes | No

fun press :: "recommenderizer \<Rightarrow> button \<times> external \<Rightarrow> recommenderizer" where
  "press st (Yes, ext) = fst (record_yes st ext)"
| "press st (No, ext) = fst (record_no st ext)"

definition presses :: "recommenderizer \<Rightarrow> (button \<times> external) list \<Rightarrow> recommenderizer" where
  "presses st ps = foldl press st ps"

fun label_of :: "button \<Rightarrow> nat" where
  "label_of Yes = 1"
| "label_of No = 0"

definition consistent :: "recommenderizer \<Rightarrow> bool" where
  "consistent st \<longleftrightarrow>
     next_index st < length (labels st) \<and> length (index_history st) = length (label_history st)"

section \<open>Properties of the probability estimates\<close>

lemma sum_list_as_float: "sum_list (as_float bs) = real (length (filter id bs))"
  by (induction bs) (simp_all add: as_float_def)

lemma np_mean_as_float:
  "bs \<noteq> [] \<Longrightarrow> np_mean (as_float bs) = Some (real (length (filter id bs)) / real (length bs))"
  by (simp add: np_mean_def sum_list_as_float) (simp add: as_float_def)

lemma np_mean_as_float_bounds:
  assumes "bs \<noteq> []" and "np_mean (as_float bs) = Some r"
  shows "0 \<le> r \<and> r \<le> 1"
proof -
  have len: "0 < real (length bs)" using assms(1) by simp
  have r: "r = real (length (filter id bs)) / real (length bs)"
    using assms np_mean_as_float by fastforce
  have "length (filter id bs) \<le> length bs" by simp
  then have "real (length (filter id bs)) \<le> real (length bs)" by linarith
  with len show ?thesis unfolding r by simp
qed

text \<open>
  C9. For every non-empty array of replicated values, both rank computations of the
  code (the mean of the indicator \<open>v \<le> c\<close>, and the mean of the indicator \<open>|v| < c\<close>)
  return a number, and that number lies in the closed interval from 0 to 1.
\<close>

theorem rank_in_unit_interval:
  assumes "trace \<noteq> []"
  shows "(\<exists>r. mean_le trace c = Some r \<and> 0 \<le> r \<and> r \<le> 1) \<and>
         (\<exists>r. mean_abs_lt trace c = Some r \<and> 0 \<le> r \<and> r \<le> 1)"
proof
  let ?bs = "map (\<lambda>v. v \<le> c) trace"
  have ne: "?bs \<noteq> []" using assms by simp
  obtain r where r: "np_mean (as_float ?bs) = Some r"
    using np_mean_as_float [OF ne] by blast
  with np_mean_as_float_bounds [OF ne r]
  show "\<exists>r. mean_le trace c = Some r \<and> 0 \<le> r \<and> r \<le> 1"
    by (simp add: mean_le_def)
next
  let ?bs = "map (\<lambda>v. v < c) (map abs trace)"
  have ne: "?bs \<noteq> []" using assms by simp
  obtain r where r: "np_mean (as_float ?bs) = Some r"
    using np_mean_as_float [OF ne] by blast
  with np_mean_as_float_bounds [OF ne r]
  show "\<exists>r. mean_abs_lt trace c = Some r \<and> 0 \<le> r \<and> r \<le> 1"
    by (simp add: mean_abs_lt_def)
qed

theorem rank_in_unit_interval_witness:
  "[-1, 0, 2] \<noteq> ([] :: real list) \<and>
   mean_le [-1, 0, 2] 0 = Some (2 / 3) \<and> mean_abs_lt [-1, 0, 2] (1 / 1000) = Some (1 / 3)"
proof -
  have ne: "[-1, 0, 2] \<noteq> ([] :: real list)" by simp
  have le: "mean_le [-1, 0, 2] 0 = Some (2 / 3)"
    by (simp add: mean_le_def np_mean_def as_float_def)
  have lt: "mean_abs_lt [-1, 0, 2] (1 / 1000) = Some (1 / 3)"
    by (simp add: mean_abs_lt_def np_mean_def as_float_def)
  from rank_in_unit_interval [OF ne, of 0] ne le lt show ?thesis by simp
qed

lemma mean_le_count:
  "trace \<noteq> [] \<Longrightarrow>
   mean_le trace c = Some (real (length (filter (\<lambda>v. v \<le> c) trace)) / real (length trace))"
proof -
  assume ne: "trace \<noteq> []"
  have "filter id (map (\<lambda>v. v \<le> c) trace) = map (\<lambda>v. v \<le> c) (filter (\<lambda>v. v \<le> c) trace)"
    by (induction trace) simp_all
  then have "length (filter id (map (\<lambda>v. v \<le> c) trace)) = length (filter (\<lambda>v. v \<le> c) trace)"
    by simp
  with ne show ?thesis
    by (simp add: mean_le_def np_mean_as_float)
qed

lemma mean_le_mset:
  assumes "mset xs = mset ys"
  shows "mean_le xs c = mean_le ys c"
proof (cases "xs = []")
  case True
  with assms have "ys = []" by simp
  with True show ?thesis by simp
next
  case False
  with assms have ne: "ys \<noteq> []" by auto
  have len: "length xs = length ys"
    using assms by (rule mset_eq_length)
  have "mset (filter (\<lambda>v. v \<le> c) xs) = mset (filter (\<lambda>v. v \<le> c) ys)"
    using assms by simp
  then have "length (filter (\<lambda>v. v \<le> c) xs) = length (filter (\<lambda>v. v \<le> c) ys)"
    by (rule mset_eq_length)
  with len False ne show ?thesis
    by (simp add: mean_le_count)
qed

section \<open>Properties of the evaluator\<close>

lemma evaluate_nonempty:
  assumes "observed \<noteq> []" and "replicated_batch \<noteq> []"
  shows "evaluate observed replicated_batch statistic =
    Inr \<lparr>observed_stat = statistic observed,
         replicated_stats = map statistic replicated_batch,
         rank = real (length (filter (\<lambda>s. s \<le> statistic observed)
                                     (map statistic replicated_batch)))
                / real (length replicated_batch)\<rparr>"
proof -
  have ne: "map statistic replicated_batch \<noteq> []" using assms(2) by simp
  show ?thesis
    using assms by (simp add: evaluate_def Let_def mean_le_count [OF ne])
qed

text \<open>
  C1, as amended. For every observed dataset with at least one observation, every
  non-empty batch of replicated datasets and every statistic, \<open>evaluate\<close> returns a
  result whose observed statistic is the statistic of the observed data, whose
  replicated statistics are those of the batch in batch order, and whose rank is the
  number of replicated statistics less than or equal to the observed one, divided by
  the batch size. With no observation \<open>evaluate\<close> fails with \<open>EmptyBatch\<close>. In
  particular, for the observed data 1, 2, 3, 4, 5 and three replicated datasets with means
  2, 3 and 5, under the mean, the result has observed statistic 3, replicated statistics
  2, 3, 5 and rank 2/3.
\<close>

theorem evaluate_rank:
  assumes "observed \<noteq> []" and "replicated_batch \<noteq> []"
  shows "(\<exists>res. evaluate observed replicated_batch statistic = Inr res \<and>
            observed_stat res = statistic observed \<and>
            replicated_stats res = map statistic replicated_batch \<and>
            rank res =
              real (length (filter (\<lambda>s. s \<le> statistic observed)
                                   (map statistic replicated_batch)))
              / real (length replicated_batch)) \<and>
         evaluate [] replicated_batch statistic = Inl EmptyBatch \<and>
         evaluate [1, 2, 3, 4, 5] [[0, 1, 2, 3, 4], [1, 2, 3, 4, 5], [3, 4, 5, 6, 7]] mean_stat
           = Inr \<lparr>observed_stat = 3, replicated_stats = [2, 3, 5], rank = 2 / 3\<rparr>"
proof (intro conjI)
  show "\<exists>res. evaluate observed replicated_batch statistic = Inr res \<and>
            observed_stat res = statistic observed \<and>
            replicated_stats res = map statistic replicated_batch \<and>
            rank res =
              real (length (filter (\<lambda>s. s \<le> statistic observed)
                                   (map statistic replicated_batch)))
              / real (length replicated_batch)"
    by (simp add: evaluate_nonempty [OF assms])
next
  show "evaluate [] replicated_batch statistic = Inl EmptyBatch"
    by (simp add: evaluate_def)
next
  show "evaluate [1, 2, 3, 4, 5] [[0, 1, 2, 3, 4], [1, 2, 3, 4, 5], [3, 4, 5, 6, 7]] mean_stat
           = Inr \<lparr>observed_stat = 3, replicated_stats = [2, 3, 5], rank = 2 / 3\<rparr>"
    by (simp add: evaluate_def Let_def mean_stat_def mean_le_def np_mean_def as_float_def)
qed

theorem evaluate_rank_witness:
  "[1, 2, 3, 4, 5 :: real] \<noteq> [] \<and>
   [[2, 2, 2, 2, 2], [1, 2, 3, 4, 5], [5, 5, 5, 5, 5 :: real]] \<noteq> [] \<and>
   (\<exists>res. evaluate [1, 2, 3, 4, 5] [[2, 2, 2, 2, 2], [1, 2, 3, 4, 5], [5, 5, 5, 5, 5]] mean_stat
            = Inr res \<and>
      observed_stat res = 3 \<and> replicated_stats res = [2, 3, 5] \<and> rank res = 2 / 3)"
proof -
  have obs: "[1, 2, 3, 4, 5 :: real] \<noteq> []" by simp
  have ne: "[[2, 2, 2, 2, 2], [1, 2, 3, 4, 5], [5, 5, 5, 5, 5 :: real]] \<noteq> []" by simp
  from evaluate_rank [OF obs ne, of mean_stat]
  show ?thesis by (simp add: mean_stat_def)
qed

text \<open>
  C1 as stated fails for an observed dataset with no observation: \<open>evaluate\<close> then
  returns no result but the error \<open>EmptyBatch\<close>, although the batch is not empty.
\<close>

theorem evaluate_zero_observations_counterexample:
  "[[1 :: real]] \<noteq> [] \<and> evaluate [] [[1]] mean_stat = Inl EmptyBatch"
  by (simp add: evaluate_def)

text \<open>
  C7. The rank does not depend on the order of the batch. For every observed dataset,
  every statistic and every permutation of a batch, \<open>evaluate\<close> on the permuted batch
  ends as on the batch itself: with the same rank, or with the same error where there
  is no rank (no observation). When there is at least one observation and the batch is
  not empty, both evaluations succeed, and their ranks are equal.
\<close>

theorem evaluate_rank_permutation:
  assumes "mset permuted_batch = mset replicated_batch"
  shows "map_sum id rank (evaluate observed permuted_batch statistic)
           = map_sum id rank (evaluate observed replicated_batch statistic) \<and>
         (observed \<noteq> [] \<and> replicated_batch \<noteq> [] \<longrightarrow>
            (\<exists>res res'. evaluate observed replicated_batch statistic = Inr res \<and>
               evaluate observed permuted_batch statistic = Inr res' \<and>
               rank res' = rank res))"
proof -
  have "mset (map statistic permuted_batch) = mset (map statistic replicated_batch)"
    using assms by (metis mset_map)
  then have eq: "mean_le (map statistic permuted_batch) (statistic observed)
      = mean_le (map statistic replicated_batch) (statistic observed)"
    by (rule mean_le_mset)
  have empty: "permuted_batch = [] \<longleftrightarrow> replicated_batch = []"
    using assms by (metis mset_zero_iff)
  have same: "map_sum id rank (evaluate observed permuted_batch statistic)
           = map_sum id rank (evaluate observed replicated_batch statistic)"
    by (simp add: evaluate_def Let_def eq empty split: option.splits)
  have both: "\<exists>res res'. evaluate observed replicated_batch statistic = Inr res \<and>
               evaluate observed permuted_batch statistic = Inr res' \<and>
               rank res' = rank res"
    if ne: "observed \<noteq> [] \<and> replicated_batch \<noteq> []"
  proof -
    from ne empty have p: "permuted_batch \<noteq> []" by simp
    have len: "length permuted_batch = length replicated_batch"
      using assms by (rule mset_eq_length)
    have "length (filter (\<lambda>s. s \<le> statistic observed) (map statistic permuted_batch))
        = length (filter (\<lambda>s. s \<le> statistic observed) (map statistic replicated_batch))"
      using \<open>mset (map statistic permuted_batch) = mset (map statistic replicated_batch)\<close>
      by (metis mset_filter mset_eq_length)
    with len ne p show ?thesis
      by (simp add: evaluate_nonempty)
  qed
  from same both show ?thesis by blast
qed

theorem evaluate_rank_permutation_witness:
  "mset [[5, 5, 5, 5, 5], [2, 2, 2, 2, 2], [1, 2, 3, 4, 5 :: real]]
     = mset [[2, 2, 2, 2, 2], [1, 2, 3, 4, 5], [5, 5, 5, 5, 5]] \<and>
   map_sum id rank
     (evaluate [1, 2, 3, 4, 5] [[5, 5, 5, 5, 5], [2, 2, 2, 2, 2], [1, 2, 3, 4, 5]] mean_stat)
     = Inr (2 / 3) \<and>
   map_sum id rank
     (evaluate [1, 2, 3, 4, 5] [[2, 2, 2, 2, 2], [1, 2, 3, 4, 5], [5, 5, 5, 5, 5]] mean_stat)
     = Inr (2 / 3)"
proof -
  have p: "mset [[5, 5, 5, 5, 5], [2, 2, 2, 2, 2], [1, 2, 3, 4, 5 :: real]]
     = mset [[2, 2, 2, 2, 2], [1, 2, 3, 4, 5], [5, 5, 5, 5, 5]]"
    by simp
  have r: "map_sum id rank
     (evaluate [1, 2, 3, 4, 5] [[2, 2, 2, 2, 2], [1, 2, 3, 4, 5], [5, 5, 5, 5, 5]] mean_stat)
     = Inr (2 / 3)"
    by (simp add: evaluate_def Let_def mean_stat_def mean_le_def np_mean_def as_float_def)
  have same: "map_sum id rank
     (evaluate [1, 2, 3, 4, 5] [[5, 5, 5, 5, 5], [2, 2, 2, 2, 2], [1, 2, 3, 4, 5]] mean_stat)
     = map_sum id rank
     (evaluate [1, 2, 3, 4, 5] [[2, 2, 2, 2, 2], [1, 2, 3, 4, 5], [5, 5, 5, 5, 5]] mean_stat)"
    using evaluate_rank_permutation [OF p, of "[1, 2, 3, 4, 5]" mean_stat] by (rule conjunct1)
  from p r same show ?thesis by simp
qed

section \<open>Properties of the parameter sampler\<close>

lemma all_draws_nth:
  assumes "valid_batch tr" and "i < batch_size tr"
  shows "all_draws tr ! i =
    \<lparr>beta = tr_beta tr ! i, intercept = tr_intercept tr ! i, sigma = tr_sigma tr ! i\<rparr>"
  using assms by (simp add: all_draws_def valid_batch_def batch_size_def)

lemma draw_at_in_range:
  assumes "valid_batch tr" and "i < batch_size tr"
  shows "draw_at tr i =
    Inr \<lparr>beta = tr_beta tr ! i, intercept = tr_intercept tr ! i, sigma = tr_sigma tr ! i\<rparr>"
  using assms by (simp add: draw_at_def item_def valid_batch_def batch_size_def)

lemma draw_at_out_of_range:
  assumes "batch_size tr \<le> i"
  shows "draw_at tr i = Inl IndexError"
  using assms by (simp add: draw_at_def item_def batch_size_def)

text \<open>
  C6. For every valid batch of \<open>B\<close> draws, \<open>all_draws\<close> has exactly \<open>B\<close> items, in
  storage order: its \<open>i\<close>-th item holds the \<open>i\<close>-th row of \<open>traces["beta"]\<close> and the
  \<open>i\<close>-th entries of \<open>traces["intercept"]\<close> and \<open>traces["sigma"]\<close>. For every \<open>i < B\<close>,
  \<open>draw_at i\<close> returns that same \<open>i\<close>-th draw, counted from 0, which is the \<open>i\<close>-th
  item of \<open>all_draws\<close>; and \<open>draw_at i\<close> fails with the out-of-range error (numpy's
  \<open>IndexError\<close>) if and only if \<open>i \<ge> B\<close>. In particular index 5 is out of range in
  a batch of size 3.
\<close>

theorem draw_at_all_draws:
  assumes "valid_batch tr"
  shows "length (all_draws tr) = batch_size tr \<and>
         (\<forall>i<batch_size tr.
            all_draws tr ! i =
              \<lparr>beta = tr_beta tr ! i, intercept = tr_intercept tr ! i, sigma = tr_sigma tr ! i\<rparr> \<and>
            draw_at tr i =
              Inr \<lparr>beta = tr_beta tr ! i, intercept = tr_intercept tr ! i,
                   sigma = tr_sigma tr ! i\<rparr> \<and>
            draw_at tr i = Inr (all_draws tr ! i)) \<and>
         (\<forall>i. draw_at tr i = Inl IndexError \<longleftrightarrow> batch_size tr \<le> i) \<and>
         (batch_size tr = 3 \<longrightarrow> draw_at tr 5 = Inl IndexError)"
proof (intro conjI allI impI)
  show "length (all_draws tr) = batch_size tr"
    using assms by (simp add: all_draws_def valid_batch_def batch_size_def)
next
  fix i assume "i < batch_size tr"
  then show "all_draws tr ! i =
      \<lparr>beta = tr_beta tr ! i, intercept = tr_intercept tr ! i, sigma = tr_sigma tr ! i\<rparr>"
    using assms by (rule all_draws_nth [rotated])
next
  fix i assume "i < batch_size tr"
  then show "draw_at tr i =
      Inr \<lparr>beta = tr_beta tr ! i, intercept = tr_intercept tr ! i, sigma = tr_sigma tr ! i\<rparr>"
    using assms by (rule draw_at_in_range [rotated])
next
  fix i assume "i < batch_size tr"
  then show "draw_at tr i = Inr (all_draws tr ! i)"
    using assms by (simp add: all_draws_nth draw_at_in_range)
next
  fix i
  show "draw_at tr i = Inl IndexError \<longleftrightarrow> batch_size tr \<le> i"
  proof (cases "i < batch_size tr")
    case True
    then show ?thesis using assms by (simp add: draw_at_in_range)
  next
    case False
    then show ?thesis by (simp add: draw_at_out_of_range)
  qed
next
  assume "batch_size tr = 3"
  then show "draw_at tr 5 = Inl IndexError"
    by (simp add: draw_at_out_of_range)
qed

theorem draw_at_all_draws_witness:
  "valid_batch \<lparr>tr_beta = [[1, 2], [3, 4], [5, 6]], tr_sigma = [1, 2, 3], tr_intercept = [7, 8, 9]\<rparr> \<and>
   all_draws \<lparr>tr_beta = [[1, 2], [3, 4], [5, 6]], tr_sigma = [1, 2, 3], tr_intercept = [7, 8, 9]\<rparr>
     = [\<lparr>beta = [1, 2], intercept = 7, sigma = 1\<rparr>,
        \<lparr>beta = [3, 4], intercept = 8, sigma = 2\<rparr>,
        \<lparr>beta = [5, 6], intercept = 9, sigma = 3\<rparr>] \<and>
   draw_at \<lparr>tr_beta = [[1, 2], [3, 4], [5, 6]], tr_sigma = [1, 2, 3], tr_intercept = [7, 8, 9]\<rparr> 0
     = Inr \<lparr>beta = [1, 2], intercept = 7, sigma = 1\<rparr> \<and>
   draw_at \<lparr>tr_beta = [[1, 2], [3, 4], [5, 6]], tr_sigma = [1, 2, 3], tr_intercept = [7, 8, 9]\<rparr> 2
     = Inr \<lparr>beta = [5, 6], intercept = 9, sigma = 3\<rparr> \<and>
   draw_at \<lparr>tr_beta = [[1, 2], [3, 4], [5, 6]], tr_sigma = [1, 2, 3], tr_intercept = [7, 8, 9]\<rparr> 5
     = Inl IndexError"
proof -
  let ?tr = "\<lparr>tr_beta = [[1, 2], [3, 4], [5, 6 :: real]], tr_sigma = [1, 2, 3 :: real],
              tr_intercept = [7, 8, 9 :: real]\<rparr>"
  have v: "valid_batch ?tr" by (simp add: valid_batch_def)
  have b: "batch_size ?tr = 3" by (simp add: batch_size_def)
  note t = draw_at_all_draws [OF v]
  from t have len: "length (all_draws ?tr) = 3" using b by simp
  from t b have nth: "\<forall>i<3. all_draws ?tr ! i =
      \<lparr>beta = tr_beta ?tr ! i, intercept = tr_intercept ?tr ! i, sigma = tr_sigma ?tr ! i\<rparr>"
    by simp
  from t b have at: "\<forall>i<3. draw_at ?tr i = Inr (all_draws ?tr ! i)"
    by simp
  from t b have out: "draw_at ?tr 5 = Inl IndexError"
    by blast
  from nth have items:
    "all_draws ?tr ! 0 = \<lparr>beta = [1, 2], intercept = 7, sigma = 1\<rparr>"
    "all_draws ?tr ! 1 = \<lparr>beta = [3, 4], intercept = 8, sigma = 2\<rparr>"
    "all_draws ?tr ! 2 = \<lparr>beta = [5, 6], intercept = 9, sigma = 3\<rparr>"
    by simp_all
  have "all_draws ?tr = [all_draws ?tr ! 0, all_draws ?tr ! 1, all_draws ?tr ! 2]"
    using len by (auto simp: list_eq_iff_nth_eq less_Suc_eq numeral_3_eq_3 numeral_2_eq_2)
  then have whole: "all_draws ?tr =
      [\<lparr>beta = [1, 2], intercept = 7, sigma = 1\<rparr>,
       \<lparr>beta = [3, 4], intercept = 8, sigma = 2\<rparr>,
       \<lparr>beta = [5, 6], intercept = 9, sigma = 3\<rparr>]"
    by (simp only: items)
  from at have "draw_at ?tr 0 = Inr (all_draws ?tr ! 0)" "draw_at ?tr 2 = Inr (all_draws ?tr ! 2)"
    by simp_all
  with items have first: "draw_at ?tr 0 = Inr \<lparr>beta = [1, 2], intercept = 7, sigma = 1\<rparr>"
    and last: "draw_at ?tr 2 = Inr \<lparr>beta = [5, 6], intercept = 9, sigma = 3\<rparr>"
    by simp_all
  from v whole first last out show ?thesis by blast
qed

section \<open>Properties of the replicator\<close>

lemma np_random_normal_ok:
  "0 \<le> scale \<Longrightarrow>
   np_random_normal g loc scale n =
     Inr (map (\<lambda>k. loc + scale * g k Standard_Normal) [0..<n], (\<lambda>k. g (k + n)))"
  by (simp add: np_random_normal_def variates_def o_def)

lemma np_random_standard_t_ok:
  "0 < df \<Longrightarrow>
   np_random_standard_t g df n =
     Inr (map (\<lambda>k. g k (Standard_T df)) [0..<n], (\<lambda>k. g (k + n)))"
  by (simp add: np_random_standard_t_def variates_def)

lemma broadcast_same_length:
  "length a = length b \<Longrightarrow> broadcast f a b = Inr (map2 f a b)"
  by (simp add: broadcast_def)

text \<open>
  C2. For the normal family, for every draw with \<open>beta\<close>, \<open>intercept\<close> and a scale
  \<open>sigma\<close> that numpy accepts (not negative), and every covariate matrix whose rows
  have the length of \<open>beta\<close> and which has one row per test observation, the
  replication succeeds, and its value for row \<open>i\<close> is
  \<open>dot(beta, X[i]) + intercept + sigma * z\<close>, where \<open>z\<close> is the \<open>i\<close>-th standard normal
  variate of the random source; the source is left advanced by one variate per row.
\<close>

theorem replicate_normal_values:
  assumes "0 \<le> sigma d"
    and "list_all (\<lambda>row. length row = length (beta d)) X_test"
    and "length Y_test = length X_test"
  shows "\<exists>y. replicate_normal g d X_test Y_test = Inr (y, (\<lambda>k. g (k + length X_test))) \<and>
           length y = length X_test \<and>
           (\<forall>i<length X_test.
              y ! i = dot (beta d) (X_test ! i) + intercept d + sigma d * g i Standard_Normal)"
  using assms
  by (simp add: replicate_normal_def np_random_normal_ok dot_rows_def broadcast_same_length)

theorem replicate_normal_values_witness:
  "0 \<le> sigma \<lparr>beta = [1, 2], intercept = 1, sigma = 2\<rparr> \<and>
   list_all (\<lambda>row. length row = length (beta \<lparr>beta = [1, 2], intercept = 1, sigma = 2\<rparr>))
     [[1, 0], [0, 1]] \<and>
   length [0, 0 :: real] = length [[1, 0], [0, 1 :: real]] \<and>
   replicate_normal (counter_gen 0) \<lparr>beta = [1, 2], intercept = 1, sigma = 2\<rparr>
       [[1, 0], [0, 1]] [0, 0]
     = Inr ([2, 5], counter_gen 2)"
proof -
  let ?d = "\<lparr>beta = [1, 2], intercept = 1, sigma = 2 :: real\<rparr>"
  have a: "0 \<le> sigma ?d" by simp
  have b: "list_all (\<lambda>row. length row = length (beta ?d)) [[1, 0], [0, 1]]" by simp
  have c: "length [0, 0 :: real] = length [[1, 0], [0, 1 :: real]]" by simp
  from replicate_normal_values [OF a b c, of "counter_gen 0"]
  obtain y where y: "replicate_normal (counter_gen 0) ?d [[1, 0], [0, 1]] [0, 0]
        = Inr (y, (\<lambda>k. counter_gen 0 (k + 2)))"
      and len: "length y = 2"
      and vals: "\<forall>i<2. y ! i = dot [1, 2] ([[1, 0], [0, 1]] ! i) + 1 + 2 * counter_gen 0 i Standard_Normal"
    by auto
  from vals have "y ! 0 = 2" "y ! 1 = 5"
    by (simp_all add: dot_def counter_gen_def)
  with len have "y = [2, 5]"
    by (cases y; cases "tl y") auto
  moreover have "(\<lambda>k. counter_gen 0 (k + 2)) = counter_gen 2"
    by (simp add: counter_gen_def fun_eq_iff)
  ultimately show ?thesis
    using y a b c by simp
qed

text \<open>
  C5. For the Student-t family, whenever the degrees of freedom \<open>nu\<close> of the draw are
  not positive the replication fails with the sampler's domain error (numpy's
  \<open>ValueError\<close>, the InvalidParameter of the specification), whatever the data are:
  the error comes first and nothing is clamped. When \<open>nu\<close> is positive and the shapes
  fit, the value for row \<open>i\<close> is \<open>dot(beta, X[i]) + intercept + sigma * t\<close>, where \<open>t\<close>
  is the \<open>i\<close>-th standard t variate with \<open>nu\<close> degrees of freedom of the random source.
\<close>

theorem replicate_student_t_nu:
  "(nu d \<le> 0 \<longrightarrow> replicate_student_t g d X_test Y_test = Inl (ValueError ''df <= 0'')) \<and>
   (0 < nu d \<and> list_all (\<lambda>row. length row = length (beta d)) X_test \<and>
      length Y_test = length X_test \<longrightarrow>
    (\<exists>y. replicate_student_t g d X_test Y_test = Inr (y, (\<lambda>k. g (k + length X_test))) \<and>
       length y = length X_test \<and>
       (\<forall>i<length X_test.
          y ! i = dot (beta d) (X_test ! i) + intercept d + sigma d * g i (Standard_T (nu d)))))"
proof (intro conjI impI)
  assume "nu d \<le> 0"
  then show "replicate_student_t g d X_test Y_test = Inl (ValueError ''df <= 0'')"
    by (simp add: replicate_student_t_def np_random_standard_t_def)
next
  assume a: "0 < nu d \<and> list_all (\<lambda>row. length row = length (beta d)) X_test \<and>
      length Y_test = length X_test"
  then show "\<exists>y. replicate_student_t g d X_test Y_test = Inr (y, (\<lambda>k. g (k + length X_test))) \<and>
       length y = length X_test \<and>
       (\<forall>i<length X_test.
          y ! i = dot (beta d) (X_test ! i) + intercept d + sigma d * g i (Standard_T (nu d)))"
    by (simp add: replicate_student_t_def np_random_standard_t_ok dot_rows_def
        broadcast_same_length)
qed

theorem replicate_student_t_nu_witness:
  "replicate_student_t (counter_gen 0) \<lparr>beta = [1, 2], intercept = 1, sigma = 2, nu = 0\<rparr>
       [[1, 0], [0, 1]] [0, 0]
     = Inl (ValueError ''df <= 0'') \<and>
   replicate_student_t (counter_gen 0) \<lparr>beta = [1, 2], intercept = 1, sigma = 2, nu = 3\<rparr>
       [[1, 0], [0, 1]] [0, 0]
     = Inr ([2, 5], counter_gen 2)"
proof -
  let ?bad = "\<lparr>beta = [1, 2], intercept = 1, sigma = 2, nu = 0 :: real\<rparr>"
  let ?d = "\<lparr>beta = [1, 2], intercept = 1, sigma = 2, nu = 3 :: real\<rparr>"
  have bad: "nu ?bad \<le> 0" by simp
  have ok: "0 < nu ?d \<and> list_all (\<lambda>row. length row = length (beta ?d)) [[1, 0], [0, 1]] \<and>
      length [0, 0 :: real] = length [[1, 0], [0, 1 :: real]]" by simp
  from replicate_student_t_nu [of ?bad "counter_gen 0" "[[1, 0], [0, 1]]" "[0, 0]"] bad
  have e: "replicate_student_t (counter_gen 0) ?bad [[1, 0], [0, 1]] [0, 0]
      = Inl (ValueError ''df <= 0'')"
    by blast
  from replicate_student_t_nu [of ?d "counter_gen 0" "[[1, 0], [0, 1]]" "[0, 0]"] ok
  obtain y where y: "replicate_student_t (counter_gen 0) ?d [[1, 0], [0, 1]] [0, 0]
        = Inr (y, (\<lambda>k. counter_gen 0 (k + 2)))"
      and len: "length y = 2"
      and vals: "\<forall>i<2. y ! i = dot [1, 2] ([[1, 0], [0, 1]] ! i) + 1 + 2 * counter_gen 0 i (Standard_T 3)"
    by auto
  from vals have "y ! 0 = 2" "y ! 1 = 5"
    by (simp_all add: dot_def counter_gen_def)
  with len have "y = [2, 5]"
    by (cases y; cases "tl y") auto
  moreover have "(\<lambda>k. counter_gen 0 (k + 2)) = counter_gen 2"
    by (simp add: counter_gen_def fun_eq_iff)
  ultimately show ?thesis
    using y e by simp
qed

lemma np_random_normal_length:
  "np_random_normal g loc scale n = Inr (zs, g') \<Longrightarrow> length zs = n"
  by (auto simp: np_random_normal_def variates_def split: if_splits)

lemma np_random_standard_t_length:
  "np_random_standard_t g df n = Inr (ts, g') \<Longrightarrow> length ts = n"
  by (auto simp: np_random_standard_t_def variates_def split: if_splits)

lemma dot_rows_length: "dot_rows b X = Inr lin \<Longrightarrow> length lin = length X"
  by (auto simp: dot_rows_def split: if_splits)

lemma replicate_normal_length:
  assumes "replicate_normal g d X_test Y_test = Inr (y, g')"
    and "length Y_test = length X_test"
  shows "length y = length X_test"
proof -
  from assms(1) obtain epsilon g1 lin where
    e: "np_random_normal g 0 (sigma d) (length Y_test) = Inr (epsilon, g1)" and
    l: "dot_rows (beta d) X_test = Inr lin" and
    y: "broadcast (+) (map (\<lambda>v. v + intercept d) lin) epsilon = Inr y"
    by (auto simp: replicate_normal_def split: sum.splits prod.splits)
  from e have "length epsilon = length Y_test" by (rule np_random_normal_length)
  moreover from l have "length lin = length X_test" by (rule dot_rows_length)
  ultimately show ?thesis
    using y assms(2) by (auto simp: broadcast_def)
qed

lemma replicate_student_t_length:
  assumes "replicate_student_t g d X_test Y_test = Inr (y, g')"
    and "length Y_test = length X_test"
  shows "length y = length X_test"
proof -
  from assms(1) obtain ts g1 lin where
    e: "np_random_standard_t g (nu d) (length Y_test) = Inr (ts, g1)" and
    l: "dot_rows (beta d) X_test = Inr lin" and
    y: "broadcast (+) (map (\<lambda>v. v + intercept d) lin) (map (\<lambda>t. sigma d * t) ts) = Inr y"
    by (auto simp: replicate_student_t_def Let_def split: sum.splits prod.splits)
  from e have "length ts = length Y_test" by (rule np_random_standard_t_length)
  moreover from l have "length lin = length X_test" by (rule dot_rows_length)
  ultimately show ?thesis
    using y assms(2) by (auto simp: broadcast_def)
qed

lemma residuals_normal_length:
  assumes "residuals_normal g d X_test Y_test = Inr (r, g')"
  shows "length (resid_pp r) = 100 * length Y_test"
proof -
  from assms obtain g1 zs where
    "np_random_normal g1 0 (sigma d) (100 * length Y_test) = Inr (zs, g')" and "resid_pp r = zs"
    by (auto simp: residuals_normal_def Let_def split: sum.splits prod.splits)
  then show ?thesis by (simp add: np_random_normal_length)
qed

lemma residuals_t_length:
  assumes "residuals_t g d X_test Y_test = Inr (r, g')"
  shows "length (resid_pp r) = 100 * length Y_test"
proof -
  from assms obtain ts where
    "np_random_standard_t g (nu d) (100 * length Y_test) = Inr (ts, g')" and
    "resid_pp r = map (\<lambda>t. sigma d * t) ts"
    by (auto simp: residuals_t_def Let_def split: sum.splits prod.splits)
  then show ?thesis by (simp add: np_random_standard_t_length)
qed

text \<open>
  C3, as amended. When the test data have one observation per covariate row, a
  replication of the scatter-plot checks (normal and Student-t) that succeeds has
  exactly as many values as the covariate matrix has rows, and \<open>y_sim\<close> of the
  elevator model has exactly the declared \<open>N\<close> values. The synthetic residual samples
  of the residual checks (\<open>resid_pp_norm\<close>, \<open>resid_pp_t\<close>) are drawn a hundred times
  larger: they have exactly \<open>100 * len(Y_test)\<close> values.
\<close>

theorem replicated_lengths:
  "(length Y_test = length X_test \<longrightarrow>
      (case replicate_normal g d X_test Y_test of
         Inl e \<Rightarrow> True | Inr (y, g') \<Rightarrow> length y = length X_test) \<and>
      (case replicate_student_t g dt X_test Y_test of
         Inl e \<Rightarrow> True | Inr (y, g') \<Rightarrow> length y = length X_test)) \<and>
   length (fst (y_sim g lam N)) = N \<and>
   (case residuals_normal g d X_test Y_test of
      Inl e \<Rightarrow> True | Inr (r, g') \<Rightarrow> length (resid_pp r) = 100 * length Y_test) \<and>
   (case residuals_t g dt X_test Y_test of
      Inl e \<Rightarrow> True | Inr (r, g') \<Rightarrow> length (resid_pp r) = 100 * length Y_test)"
proof (intro conjI impI)
  assume "length Y_test = length X_test"
  then show "case replicate_normal g d X_test Y_test of
         Inl e \<Rightarrow> True | Inr (y, g') \<Rightarrow> length y = length X_test"
    by (auto split: sum.splits dest: replicate_normal_length)
next
  assume "length Y_test = length X_test"
  then show "case replicate_student_t g dt X_test Y_test of
         Inl e \<Rightarrow> True | Inr (y, g') \<Rightarrow> length y = length X_test"
    by (auto split: sum.splits dest: replicate_student_t_length)
next
  show "length (fst (y_sim g lam N)) = N"
    by (simp add: y_sim_def variates_def)
next
  show "case residuals_normal g d X_test Y_test of
      Inl e \<Rightarrow> True | Inr (r, g') \<Rightarrow> length (resid_pp r) = 100 * length Y_test"
    by (auto split: sum.splits dest: residuals_normal_length)
next
  show "case residuals_t g dt X_test Y_test of
      Inl e \<Rightarrow> True | Inr (r, g') \<Rightarrow> length (resid_pp r) = 100 * length Y_test"
    by (auto split: sum.splits dest: residuals_t_length)
qed

text \<open>
  C3 as stated fails on the residual check: for one test observation the replicated
  dataset of the scatter-plot check has one value, and the synthetic residual sample
  drawn for the same draw and data has a hundred.
\<close>

theorem residual_sample_length_counterexample:
  "map_sum id (length \<circ> fst)
     (replicate_normal (counter_gen 0) \<lparr>beta = [1], intercept = 0, sigma = 1\<rparr> [[1]] [0])
   = Inr 1 \<and>
   map_sum id (length \<circ> resid_pp \<circ> fst)
     (residuals_normal (counter_gen 0) \<lparr>beta = [1], intercept = 0, sigma = 1\<rparr> [[1]] [0])
   = Inr 100 \<and>
   length [[1 :: real]] = 1"
  by (simp add: residuals_normal_def replicate_normal_def dot_rows_def broadcast_def
      np_random_normal_def variates_def Let_def)

theorem replicated_lengths_witness:
  "length [0, 0 :: real] = length [[1, 0], [0, 1 :: real]] \<and>
   map_sum id (length \<circ> fst)
     (replicate_normal (counter_gen 0) \<lparr>beta = [1, 2], intercept = 1, sigma = 2\<rparr>
        [[1, 0], [0, 1]] [0, 0]) = Inr 2 \<and>
   map_sum id (length \<circ> fst)
     (replicate_student_t (counter_gen 0) \<lparr>beta = [1, 2], intercept = 1, sigma = 2, nu = 3\<rparr>
        [[1, 0], [0, 1]] [0, 0]) = Inr 2 \<and>
   length (fst (y_sim (counter_gen 0) 4 7)) = 7 \<and>
   map_sum id (length \<circ> resid_pp \<circ> fst)
     (residuals_normal (counter_gen 0) \<lparr>beta = [1, 2], intercept = 1, sigma = 2\<rparr>
        [[1, 0], [0, 1]] [0, 0]) = Inr 200 \<and>
   map_sum id (length \<circ> resid_pp \<circ> fst)
     (residuals_t (counter_gen 0) \<lparr>beta = [1, 2], intercept = 1, sigma = 2, nu = 3\<rparr>
        [[1, 0], [0, 1]] [0, 0]) = Inr 200"
proof -
  let ?d = "\<lparr>beta = [1, 2], intercept = 1, sigma = 2 :: real\<rparr>"
  let ?dt = "\<lparr>beta = [1, 2], intercept = 1, sigma = 2, nu = 3 :: real\<rparr>"
  let ?X = "[[1, 0], [0, 1 :: real]]"
  let ?Y = "[0, 0 :: real]"
  have ok:
    "\<not> isl (replicate_normal (counter_gen 0) ?d ?X ?Y)"
    "\<not> isl (replicate_student_t (counter_gen 0) ?dt ?X ?Y)"
    "\<not> isl (residuals_normal (counter_gen 0) ?d ?X ?Y)"
    "\<not> isl (residuals_t (counter_gen 0) ?dt ?X ?Y)"
    by (simp_all add: replicate_normal_def replicate_student_t_def residuals_normal_def
        residuals_t_def dot_rows_def broadcast_def np_random_normal_def
        np_random_standard_t_def variates_def Let_def)
  from replicated_lengths [of ?Y ?X "counter_gen 0" ?d ?dt 4 7] ok
  show ?thesis
    by (auto split: sum.splits)
qed









section \<open>Properties of the recommender\<close>

lemma argmax_from_bound: "besti < i \<Longrightarrow> argmax_from xs i best besti < i + length xs"
proof (induction xs arbitrary: i best besti)
  case Nil
  then show ?case by simp
next
  case (Cons x xs)
  have a: "argmax_from xs (Suc i) x i < Suc i + length xs"
    by (rule Cons.IH) simp
  have b: "argmax_from xs (Suc i) best besti < Suc i + length xs"
    using Cons.prems by (intro Cons.IH) simp
  from a b show ?case by simp
qed

lemma argmax_bound: "argmax xs = Inr i \<Longrightarrow> i < length xs"
  using argmax_from_bound [of 0 1] by (auto simp: argmax_def split: list.splits)

lemma choose_next_index_bound:
  assumes "choose_next_index ls ext = Inr i"
  shows "i < length ls"
proof (cases "min (count_eq ls 0) (count_eq ls 1) = 0")
  case True
  let ?u = "filter (\<lambda>i. ls ! i = None) [0..<length ls]"
  from assms True have ne: "?u \<noteq> []" and i: "i = ?u ! (choice ext mod length ?u)"
    by (auto simp: choose_next_index_def Let_def split: if_splits)
  from ne have "choice ext mod length ?u < length ?u" by simp
  then have "i \<in> set ?u" unfolding i by (rule nth_mem)
  then show ?thesis by simp
next
  case False
  with assms obtain reward where
    "argmax (map (\<lambda>j. if j \<in> set (filter (\<lambda>i. ls ! i \<noteq> None) [0..<length ls])
      then - 1000 else reward j) [0..<length ls]) = Inr i"
    by (auto simp: choose_next_index_def Let_def split: sum.splits)
  then show ?thesis by (auto dest: argmax_bound)
qed

lemma sample_fields:
  "labels (fst (sample st ext)) = labels st"
  "index_history (fst (sample st ext)) = index_history st"
  "label_history (fst (sample st ext)) = label_history st"
  by (simp_all add: sample_def split: sum.splits)

lemma sample_next_index:
  "next_index st < n \<Longrightarrow> length (labels st) = n \<Longrightarrow> next_index (fst (sample st ext)) < n"
  by (auto simp: sample_def split: sum.splits dest: choose_next_index_bound)

lemma init_inv: "init ls ext = Inr st \<Longrightarrow> consistent st"
  by (auto simp: init_def consistent_def split: sum.splits dest: choose_next_index_bound)

lemma press_effect:
  assumes "consistent st"
  shows "labels (press st (b, ext)) = (labels st)[next_index st := Some (real (label_of b))]"
    and "index_history (press st (b, ext)) = index_history st @ [next_index st]"
    and "label_history (press st (b, ext)) = label_history st @ [label_of b]"
  using assms by (cases b; simp add: record_yes_def record_no_def consistent_def sample_fields)+

lemma press_inv:
  assumes "consistent st"
  shows "consistent (press st p)"
proof -
  obtain b ext where p: "p = (b, ext)" by (cases p)
  have n: "next_index (press st (b, ext)) < length (labels st)"
    using assms
    by (cases b) (simp_all add: record_yes_def record_no_def consistent_def sample_next_index)
  from assms n show ?thesis
    unfolding p consistent_def by (simp add: press_effect [OF assms])
qed

lemma presses_inv: "consistent st \<Longrightarrow> consistent (presses st ps)"
  unfolding presses_def by (induction ps arbitrary: st) (simp_all add: press_inv)

text \<open>
  C10. In every state the GUI reaches from its construction by any presses, a press
  of the yes or the no button writes exactly one entry of the global \<open>labels\<close>: the
  entry at the current \<open>next_index\<close>, which lies inside the array, becomes 1 for yes and
  0 for no, and every other entry, like the length, stays as it was. The press appends
  that index to \<open>_index_history\<close> and that label to \<open>_label_history\<close>, one entry each, so
  the two histories have equal length before and after every press.
\<close>

theorem press_frame:
  assumes "init labels0 ext0 = Inr st0" and "st = presses st0 ps"
  shows "next_index st < length (labels st) \<and>
         labels (press st (b, ext)) = (labels st)[next_index st := Some (real (label_of b))] \<and>
         labels (press st (b, ext)) ! next_index st = Some (real (label_of b)) \<and>
         length (labels (press st (b, ext))) = length (labels st) \<and>
         (\<forall>j. j \<noteq> next_index st \<longrightarrow> labels (press st (b, ext)) ! j = labels st ! j) \<and>
         index_history (press st (b, ext)) = index_history st @ [next_index st] \<and>
         label_history (press st (b, ext)) = label_history st @ [label_of b] \<and>
         length (index_history st) = length (label_history st) \<and>
         length (index_history (press st (b, ext))) = length (label_history (press st (b, ext)))"
proof -
  have i: "consistent st"
    unfolding assms(2) using assms(1) by (intro presses_inv init_inv)
  then have r: "next_index st < length (labels st)"
    and h: "length (index_history st) = length (label_history st)"
    by (simp_all add: consistent_def)
  from r h show ?thesis
    by (simp add: press_effect [OF i])
qed

theorem press_frame_witness:
  "init [None, None, None] \<lparr>choice = 1, fit = Inl RuntimeError\<rparr>
     = Inr \<lparr>labels = [None, None, None], next_index = 1, index_history = [], label_history = []\<rparr> \<and>
   labels (press (presses \<lparr>labels = [None, None, None], next_index = 1, index_history = [],
                            label_history = []\<rparr>
                    [(Yes, \<lparr>choice = 0, fit = Inl RuntimeError\<rparr>)])
             (No, \<lparr>choice = 0, fit = Inr (\<lambda>i. 0)\<rparr>))
     = [Some 0, Some 1, None] \<and>
   index_history (press (presses \<lparr>labels = [None, None, None], next_index = 1,
                                   index_history = [], label_history = []\<rparr>
                    [(Yes, \<lparr>choice = 0, fit = Inl RuntimeError\<rparr>)])
             (No, \<lparr>choice = 0, fit = Inr (\<lambda>i. 0)\<rparr>))
     = [1, 0] \<and>
   label_history (press (presses \<lparr>labels = [None, None, None], next_index = 1,
                                   index_history = [], label_history = []\<rparr>
                    [(Yes, \<lparr>choice = 0, fit = Inl RuntimeError\<rparr>)])
             (No, \<lparr>choice = 0, fit = Inr (\<lambda>i. 0)\<rparr>))
     = [1, 0]"
proof -
  let ?first = "\<lparr>choice = 1, fit = Inl RuntimeError\<rparr>"
  let ?ext = "\<lparr>choice = 0, fit = Inl RuntimeError\<rparr>"
  let ?last = "\<lparr>choice = 0, fit = Inr (\<lambda>i. 0)\<rparr>"
  let ?made = "\<lparr>labels = [None, None, None], next_index = 1, index_history = [],
              label_history = []\<rparr>"
  let ?mid = "\<lparr>labels = [None, Some 1, None], next_index = 0, index_history = [1],
              label_history = [1]\<rparr>"
  have i: "init [None, None, None] ?first = Inr ?made"
    by code_simp
  have s1: "presses ?made [(Yes, ?ext)] = ?mid"
    by code_simp
  note f = press_frame [OF i refl, of "[(Yes, ?ext)]" No ?last]
  from f have
    "labels (press (presses ?made [(Yes, ?ext)]) (No, ?last))
       = (labels (presses ?made [(Yes, ?ext)]))[next_index (presses ?made [(Yes, ?ext)]) := Some (real (label_of No))]"
    "index_history (press (presses ?made [(Yes, ?ext)]) (No, ?last))
       = index_history (presses ?made [(Yes, ?ext)]) @ [next_index (presses ?made [(Yes, ?ext)])]"
    "label_history (press (presses ?made [(Yes, ?ext)]) (No, ?last))
       = label_history (presses ?made [(Yes, ?ext)]) @ [label_of No]"
    by blast+
  then show ?thesis
    unfolding s1 using i by simp
qed

end
